theory Spec2Isabelle
  imports Complex_Main "HOL-Library.Multiset" "HOL-Library.Product_Lexorder"
begin

section \<open>Values, errors and the observable state\<close>

text \<open>
  The notebook is a linear script over three outside parties: the process environment,
  the hosted embedding endpoint (\<^verbatim>\<open>openai.Embedding.create\<close>) and the libraries numpy,
  scikit-learn and pandas. Every Python exception is a value of \<open>py_error\<close>; a
  computation returns \<open>Inl\<close> of the exception or \<open>Inr\<close> of its value.
\<close>

datatype py_error =
    KeyError string
  | IndexError
  | ValueError string
  | ServiceError string

text \<open>
  A Python float or a numpy float64: a finite value, an infinity or not-a-number. The
  notebook only passes these values on; the arithmetic on them (subtraction, norm) is
  numpy's and is not interpreted here, so nothing is said about rounding, overflow or
  underflow. \<open>Finite\<close> carries the value as a real number; that not every real is a
  float64 only makes what is proved about passing values on more general.
\<close>

datatype float64 = Finite real | PosInf | NegInf | NaN

text \<open>
  An embedding is a Python list of floats. A response of the endpoint is a dictionary
  whose values are lists of dictionaries whose values are embeddings: the shape that the
  expression \<^verbatim>\<open>response['data'][0]['embedding']\<close> walks. A key may be absent and a list may
  be empty; a value of another kind under these keys is excluded by the types.
\<close>

type_synonym vector = "float64 list"
type_synonym datum = "string \<rightharpoonup> vector"
type_synonym response = "string \<rightharpoonup> datum list"

datatype ndarray = NDArray (elems: "float64 list")

datatype arg = IntArg int | StrArg string

type_synonym kwargs = "(string \<times> arg) list"

text \<open>The calls that leave the notebook's own code, with the arguments they carry.\<close>

datatype call =
    EnvironGet string
  | EmbeddingCreate "string option" string string
  | GetItem string
  | GetIndex int
  | NpArray
  | NpSubtract
  | LinalgNorm
  | KMeansNew kwargs
  | KMeansFit "vector list"
  | DataFrameNew
  | SortValues "string list"
  | ResetIndex

text \<open>
  One entry of the trace per call: the call raised, returned, or (for the endpoint)
  returned a response, which the entry keeps.
\<close>

datatype event =
    Raised call py_error
  | Returned call
  | Replied call response

fun raised :: "event \<Rightarrow> py_error option" where
  "raised (Raised c e) = Some e"
| "raised (Returned c) = None"
| "raised (Replied c r) = None"

fun call_of :: "event \<Rightarrow> call" where
  "call_of (Raised c e) = c"
| "call_of (Returned c) = c"
| "call_of (Replied c r) = c"

fun is_create :: "call \<Rightarrow> bool" where
  "is_create (EmbeddingCreate k i m) = True"
| "is_create _ = False"

text \<open>
  \<open>environ\<close> is \<^verbatim>\<open>os.environ\<close>, \<open>api_key\<close> is the module attribute
  \<^verbatim>\<open>openai.api_key\<close>, \<open>entropy\<close> stands for whatever ambient randomness a library
  may draw on when it is given no seed (the global generator's state), and \<open>trace\<close> lists
  the calls made so far, oldest first.
\<close>

record state =
  environ :: "string \<rightharpoonup> string"
  api_key :: "string option"
  entropy :: nat
  trace :: "event list"

text \<open>
  A row of the data frame of cell 38: its index label, its \<^verbatim>\<open>cluster\<close> and its \<^verbatim>\<open>text\<close>.
\<close>

type_synonym row = "nat \<times> int \<times> string"
type_synonym frame = "row list"

text \<open>
  What the parties outside the notebook compute is a parameter. The endpoint answers a
  request (credential, input, engine) and may answer differently each time, so it sees
  the trace so far. The clustering routine gets the estimator's keyword arguments, the
  ambient entropy and the samples, and returns \<^verbatim>\<open>labels_\<close>. \<open>float_subtract\<close> is numpy's
  float64 subtraction of two elements and \<open>float_norm\<close> is \<^verbatim>\<open>np.linalg.norm\<close> on the
  elements of a one-dimensional float64 array. \<open>tiebreak\<close> is the order pandas' sort
  (by default not a stable one) leaves rows of equal key in: a rank per row, chosen by
  the library for the frame it sorts.
\<close>

record libs =
  create :: "event list \<Rightarrow> string option \<Rightarrow> string \<Rightarrow> string \<Rightarrow> py_error + response"
  kmeans_fit :: "kwargs \<Rightarrow> nat \<Rightarrow> vector list \<Rightarrow> py_error + int list"
  float_subtract :: "float64 \<Rightarrow> float64 \<Rightarrow> float64"
  float_norm :: "float64 list \<Rightarrow> float64"
  tiebreak :: "frame \<Rightarrow> row \<Rightarrow> nat"

section \<open>Sequencing with exceptions\<close>

type_synonym 'a py = "state \<Rightarrow> (py_error + 'a) \<times> state"

definition py_return :: "'a \<Rightarrow> 'a py" where
  "py_return x s = (Inr x, s)"

text \<open>
  Statement after statement: the second runs only if the first returned. The source has
  no \<^verbatim>\<open>try\<close>, so an exception ends the run with the state as it is.
\<close>

definition py_bind :: "'a py \<Rightarrow> ('a \<Rightarrow> 'b py) \<Rightarrow> 'b py" where
  "py_bind m f s = (case m s of (Inl e, s') \<Rightarrow> (Inl e, s') | (Inr x, s') \<Rightarrow> f x s')"

definition record_call :: "event \<Rightarrow> state \<Rightarrow> state" where
  "record_call ev s = s\<lparr>trace := trace s @ [ev]\<rparr>"

definition lib_call :: "call \<Rightarrow> py_error + 'a \<Rightarrow> 'a py" where
  "lib_call c r s =
     (case r of Inl e \<Rightarrow> (Inl e, record_call (Raised c e) s) | Inr x \<Rightarrow> (Inr x, record_call (Returned c) s))"

section \<open>The outside calls\<close>

text \<open>\<^verbatim>\<open>os.environ[k]\<close>: KeyError when the variable is unset.\<close>

definition environ_get :: "string \<Rightarrow> string py" where
  "environ_get k s =
     lib_call (EnvironGet k)
       (case environ s k of None \<Rightarrow> Inl (KeyError k) | Some v \<Rightarrow> Inr v) s"

text \<open>\<^verbatim>\<open>openai.api_key = k\<close>\<close>

definition set_api_key :: "string \<Rightarrow> unit py" where
  "set_api_key k s = (Inr (), s\<lparr>api_key := Some k\<rparr>)"

text \<open>\<^verbatim>\<open>openai.Embedding.create(input=..., engine=...)\<close>, sent with the module's credential.\<close>

definition embedding_create :: "libs \<Rightarrow> string \<Rightarrow> string \<Rightarrow> response py" where
  "embedding_create L inp engine s =
     (let c = EmbeddingCreate (api_key s) inp engine in
      case create L (trace s) (api_key s) inp engine of
        Inl e \<Rightarrow> (Inl e, record_call (Raised c e) s)
      | Inr resp \<Rightarrow> (Inr resp, record_call (Replied c resp) s))"

text \<open>\<^verbatim>\<open>d[k]\<close> on a dictionary: KeyError when the key is absent.\<close>

definition getitem :: "(string \<rightharpoonup> 'v) \<Rightarrow> string \<Rightarrow> 'v py" where
  "getitem d k =
     lib_call (GetItem k) (case d k of None \<Rightarrow> Inl (KeyError k) | Some v \<Rightarrow> Inr v)"

text \<open>\<^verbatim>\<open>xs[i]\<close> on a list: a negative index counts from the end, IndexError out of range.\<close>

definition list_index :: "'a list \<Rightarrow> int \<Rightarrow> py_error + 'a" where
  "list_index xs i =
     (let n = int (length xs); j = (if i < 0 then i + n else i)
      in if 0 \<le> j \<and> j < n then Inr (xs ! nat j) else Inl IndexError)"

definition getindex :: "'a list \<Rightarrow> int \<Rightarrow> 'a py" where
  "getindex xs i = lib_call (GetIndex i) (list_index xs i)"

text \<open>\<^verbatim>\<open>np.array(list_of_floats)\<close>: the one-dimensional float64 array of the same elements.\<close>

definition np_array :: "vector \<Rightarrow> ndarray py" where
  "np_array v = lib_call NpArray (Inr (NDArray v))"

text \<open>
  \<^verbatim>\<open>a - b\<close> on one-dimensional arrays, with numpy's broadcasting: equal lengths subtract
  elementwise, a length-one operand is stretched, any other pair of shapes raises
  ValueError. Each element is numpy's float64 difference.
\<close>

definition broadcast_subtract :: "libs \<Rightarrow> ndarray \<Rightarrow> ndarray \<Rightarrow> py_error + ndarray" where
  "broadcast_subtract L a b =
     (let xs = elems a; ys = elems b in
      if length xs = length ys then Inr (NDArray (map2 (float_subtract L) xs ys))
      else if length xs = 1 then Inr (NDArray (map (\<lambda>y. float_subtract L (hd xs) y) ys))
      else if length ys = 1 then Inr (NDArray (map (\<lambda>x. float_subtract L x (hd ys)) xs))
      else Inl (ValueError ''operands could not be broadcast together''))"

definition np_subtract :: "libs \<Rightarrow> ndarray \<Rightarrow> ndarray \<Rightarrow> ndarray py" where
  "np_subtract L a b = lib_call NpSubtract (broadcast_subtract L a b)"

text \<open>
  \<^verbatim>\<open>np.linalg.norm(x)\<close> with no \<^verbatim>\<open>ord\<close> on a one-dimensional array: whatever float64
  numpy computes from the elements.
\<close>

definition linalg_norm :: "libs \<Rightarrow> ndarray \<Rightarrow> float64 py" where
  "linalg_norm L x = lib_call LinalgNorm (Inr (float_norm L (elems x)))"

text \<open>
  \<^verbatim>\<open>KMeans(**kw)\<close> stores its keyword arguments; \<^verbatim>\<open>.fit(X)\<close> runs the library's routine
  on them and sets \<^verbatim>\<open>labels_\<close>.
\<close>

definition kmeans_new :: "kwargs \<Rightarrow> kwargs py" where
  "kmeans_new kw = lib_call (KMeansNew kw) (Inr kw)"

definition kmeans_fit_call :: "libs \<Rightarrow> kwargs \<Rightarrow> vector list \<Rightarrow> int list py" where
  "kmeans_fit_call L kw X s = lib_call (KMeansFit X) (kmeans_fit L kw (entropy s) X) s"

text \<open>
  A data frame with the columns \<^verbatim>\<open>cluster\<close> and \<^verbatim>\<open>text\<close>: one row per position, each
  with its index label. The constructor raises ValueError when the columns differ in
  length. \<^verbatim>\<open>sort_values(by=['cluster'])\<close> returns the rows in nondecreasing order of
  \<^verbatim>\<open>cluster\<close> (each keeps its index label); rows of equal \<^verbatim>\<open>cluster\<close> come in the order
  of the library's \<open>tiebreak\<close>, since the default sort is not stable.
  \<^verbatim>\<open>reset_index(drop=True)\<close> renumbers the rows from 0.
\<close>

definition row_cluster :: "row \<Rightarrow> int" where
  "row_cluster r = fst (snd r)"

definition dataframe_new :: "int list \<Rightarrow> string list \<Rightarrow> frame py" where
  "dataframe_new cluster text =
     lib_call DataFrameNew
       (if length cluster = length text
        then Inr (zip [0..<length cluster] (zip cluster text))
        else Inl (ValueError ''All arrays must be of the same length''))"

definition sort_values_cluster :: "libs \<Rightarrow> frame \<Rightarrow> frame py" where
  "sort_values_cluster L df =
     lib_call (SortValues [''cluster''])
       (Inr (sort_key (\<lambda>r. (row_cluster r, tiebreak L df r)) df))"

definition reset_index_drop :: "frame \<Rightarrow> frame py" where
  "reset_index_drop df = lib_call ResetIndex (Inr (zip [0..<length df] (map snd df)))"

section \<open>The notebook\<close>

text \<open>
  Cell 12:
  \<^verbatim>\<open>openai.api_key = os.environ["OPENAI_API_KEY"]\<close>
\<close>

definition cell_credentials :: "unit py" where
  "cell_credentials = py_bind (environ_get ''OPENAI_API_KEY'') set_api_key"

text \<open>
  The expression that cells 14, 20 and 32 each write out:
  \<^verbatim>\<open>openai.Embedding.create(input=s, engine=model_id)['data'][0]['embedding']\<close>
\<close>

definition create_embedding :: "libs \<Rightarrow> string \<Rightarrow> string \<Rightarrow> vector py" where
  "create_embedding L inp engine =
     py_bind (embedding_create L inp engine) (\<lambda>resp.
     py_bind (getitem resp ''data'') (\<lambda>data.
     py_bind (getindex data 0) (\<lambda>d.
     getitem d ''embedding'')))"

definition text_string :: string where
  "text_string = ''Hello, world!''"

definition model_id :: string where
  "model_id = ''text-embedding-ada-002''"

text \<open>
  Cell 20:
  \<^verbatim>\<open>
  def get_embedding(string, model_id="text-embedding-ada-002"):
      embedding_as_list = openai.Embedding.create(input=string, engine=model_id)['data'][0]['embedding']
      embedding_as_array = np.array(embedding_as_list)
      return embedding_as_array
  \<close>
  A call that omits \<^verbatim>\<open>model_id\<close> passes the default, \<open>default_model_id\<close>.
\<close>

definition default_model_id :: string where
  "default_model_id = ''text-embedding-ada-002''"

definition get_embedding :: "libs \<Rightarrow> string \<Rightarrow> string \<Rightarrow> ndarray py" where
  "get_embedding L string model =
     py_bind (create_embedding L string model) (\<lambda>embedding_as_list.
     py_bind (np_array embedding_as_list) (\<lambda>embedding_as_array.
     py_return embedding_as_array))"

text \<open>
  Cells 24 and 25: \<^verbatim>\<open>np.linalg.norm(u - v)\<close>
\<close>

definition distance :: "libs \<Rightarrow> ndarray \<Rightarrow> ndarray \<Rightarrow> float64 py" where
  "distance L u v = py_bind (np_subtract L u v) (linalg_norm L)"

text \<open>Cell 28: the five profiles.\<close>

definition profiles :: "string list" where
  "profiles =
    [''Green Fuel Oasis, Surrey: Nestled in the picturesque countryside of Surrey, Green Fuel Oasis is a sustainable service station that offers a unique blend of eco-conscious services. Not only can you refuel your vehicle with clean, renewable energy options like battery recharging, bioethanol, and  biodiesel.'',
     ''Coastal Retreat Rest Stop, Cornwall: Located along the rugged coastline of Cornwall, this service station is a haven for travelers seeking relaxation. With breathtaking ocean views, it'' @ [CHR 0x27] @ ''s the perfect spot to take a break, refuel, and savor locally sourced seafood at the seafood grill. Don'' @ [CHR 0x27] @ ''t forget to explore the coastal walking trails nearby.'',
     ''TechHub Express, Manchester: For the tech-savvy traveler, TechHub Express in Manchester is a cutting-edge service station. Offering fast Wi-Fi, stations for electric vehicles, a variety of biofuels, and a state-of-the-art VR gaming lounge, it'' @ [CHR 0x27] @ ''s a place where you can recharge both your car and your devices while having a blast.'',
     ''Highland Haven, Scotland: Situated amidst the stunning Scottish Highlands, Highland Haven is a serene service station catering to adventurers exploring the rugged landscapes. Sample traditional Scottish fare at the cozy caf'' @ [CHR 0xE9] @ '', all while gazing at panoramic mountain vistas.'',
     ''Countryside Classic, Cotswolds: Experience the charm of the Cotswolds at Countryside Classic, a service station that embodies the region'' @ [CHR 0x27] @ ''s quintessential beauty. This idyllic spot and serves up classic British tea and scones in a quaint, cottage-style caf'' @ [CHR 0xE9] @ '' surrounded by rolling hills and historic villages.'']"

text \<open>
  Cell 32:
  \<^verbatim>\<open>
  profiles_vectorized = []
  for profile in profiles:
      embedding = openai.Embedding.create(input=profile, engine=model_id)['data'][0]['embedding']
      profiles_vectorized.append(embedding)
  \<close>
  The loop, with the list built so far as its accumulator.
\<close>

fun vectorize_loop :: "libs \<Rightarrow> string \<Rightarrow> string list \<Rightarrow> vector list \<Rightarrow> vector list py" where
  "vectorize_loop L engine [] profiles_vectorized = py_return profiles_vectorized"
| "vectorize_loop L engine (profile # rest) profiles_vectorized =
     py_bind (create_embedding L profile engine) (\<lambda>embedding.
     vectorize_loop L engine rest (profiles_vectorized @ [embedding]))"

definition vectorize :: "libs \<Rightarrow> string \<Rightarrow> string list \<Rightarrow> vector list py" where
  "vectorize L engine ps = vectorize_loop L engine ps []"

text \<open>
  Cell 36:
  \<^verbatim>\<open>
  kmeans = KMeans(n_clusters=2, n_init='auto', random_state=40)
  kmeans.fit(profiles_vectorized);
  \<close>
\<close>

definition kmeans_kwargs :: kwargs where
  "kmeans_kwargs =
     [(''n_clusters'', IntArg 2), (''n_init'', StrArg ''auto''), (''random_state'', IntArg 40)]"

definition cell_kmeans :: "libs \<Rightarrow> vector list \<Rightarrow> int list py" where
  "cell_kmeans L profiles_vectorized =
     py_bind (kmeans_new kmeans_kwargs) (\<lambda>kmeans.
     kmeans_fit_call L kmeans profiles_vectorized)"

text \<open>
  Cell 38:
  \<^verbatim>\<open>
  df = pd.DataFrame({"cluster": kmeans.labels_, "text": profiles,
       }).sort_values(by=['cluster']).reset_index(drop=True)
  \<close>
\<close>

definition cell_table :: "libs \<Rightarrow> int list \<Rightarrow> string list \<Rightarrow> frame py" where
  "cell_table L labels texts =
     py_bind (dataframe_new labels texts) (\<lambda>df.
     py_bind (sort_values_cluster L df) (\<lambda>df.
     reset_index_drop df))"

text \<open>What the cells display, in the order they display it.\<close>

record outputs =
  embedding_head :: "float64 list"
  embedding_len :: nat
  distance_dog_to_cat :: float64
  distance_dog_to_penguin :: float64
  vector_heads :: "float64 list list"
  df :: frame
  shown_profiles :: "string list"

text \<open>
  The cells in order: 12 (credential), 14 and 15 (one embedding, its first two floats
  and its length), 22 (three words), 24 and 25 (two distances), 32 and 34 (the profile
  vectors and the first three floats of each), 36 (clustering), 38 (the table) and 40
  (two profiles printed). Cell 30 only prints the profiles.
\<close>

definition notebook :: "libs \<Rightarrow> outputs py" where
  "notebook L =
     py_bind cell_credentials (\<lambda>_.
     py_bind (create_embedding L text_string model_id) (\<lambda>embedding.
     py_bind (get_embedding L ''dog'' default_model_id) (\<lambda>dog_vector.
     py_bind (get_embedding L ''cat'' default_model_id) (\<lambda>cat_vector.
     py_bind (get_embedding L ''penguin'' default_model_id) (\<lambda>penguin_vector.
     py_bind (distance L dog_vector cat_vector) (\<lambda>d_cat.
     py_bind (distance L dog_vector penguin_vector) (\<lambda>d_penguin.
     py_bind (vectorize L model_id profiles) (\<lambda>profiles_vectorized.
     py_bind (cell_kmeans L profiles_vectorized) (\<lambda>labels.
     py_bind (cell_table L labels profiles) (\<lambda>table.
     py_bind (getindex profiles 0) (\<lambda>p0.
     py_bind (getindex profiles 2) (\<lambda>p2.
     py_return \<lparr>embedding_head = take 2 embedding,
                embedding_len = length embedding,
                distance_dog_to_cat = d_cat,
                distance_dog_to_penguin = d_penguin,
                vector_heads = map (take 3) profiles_vectorized,
                df = table,
                shown_profiles = [p0, p2]\<rparr>))))))))))))"

section \<open>Reading the trace\<close>

text \<open>The calls a run added to the trace: what is in the later trace beyond the earlier one.\<close>

definition new_events :: "state \<Rightarrow> state \<Rightarrow> event list" where
  "new_events s s' = drop (length (trace s)) (trace s')"

definition clean :: "event list \<Rightarrow> bool" where
  "clean evs = list_all (\<lambda>ev. raised ev = None) evs"

text \<open>
  A run that returned made only calls that returned. A run that raised \<open>e\<close> made at
  least one call, its last call raised \<open>e\<close>, and every call before it returned: the
  exception is the failing call's own, and nothing was called after it.
\<close>

definition run_ok :: "py_error + 'a \<Rightarrow> event list \<Rightarrow> bool" where
  "run_ok r evs =
     (case r of
        Inr x \<Rightarrow> clean evs
      | Inl e \<Rightarrow> evs \<noteq> [] \<and> raised (last evs) = Some e \<and> clean (butlast evs))"

definition propagates :: "'a py \<Rightarrow> bool" where
  "propagates m = (\<forall>s. case m s of (r, s') \<Rightarrow> \<exists>evs. trace s' = trace s @ evs \<and> run_ok r evs)"

text \<open>The successful requests of a trace, in order: input, engine and the response received.\<close>

fun replies :: "event list \<Rightarrow> (string \<times> string \<times> response) list" where
  "replies [] = []"
| "replies (Replied (EmbeddingCreate k i m) r # evs) = (i, m, r) # replies evs"
| "replies (ev # evs) = replies evs"

text \<open>The requests sent to the endpoint among some calls, in order.\<close>

definition requests :: "event list \<Rightarrow> call list" where
  "requests evs = filter is_create (map call_of evs)"

text \<open>The embedding that \<^verbatim>\<open>['data'][0]['embedding']\<close> finds in a response, if it is there.\<close>

definition first_embedding :: "response \<Rightarrow> vector option" where
  "first_embedding resp =
     (case resp ''data'' of
        None \<Rightarrow> None
      | Some [] \<Rightarrow> None
      | Some (d # ds) \<Rightarrow> d ''embedding'')"

section \<open>Concrete parties for the examples\<close>

definition example_response :: "vector \<Rightarrow> response" where
  "example_response v = [''data'' \<mapsto> [[''embedding'' \<mapsto> v]]]"

text \<open>
  A clustering routine for the examples: it reads \<^verbatim>\<open>n_clusters\<close> from the keyword
  arguments (8 when not given) and puts sample \<open>i\<close> in cluster \<open>i mod n_clusters\<close>.
\<close>

definition n_clusters_of :: "kwargs \<Rightarrow> int" where
  "n_clusters_of kw = (case map_of kw ''n_clusters'' of Some (IntArg k) \<Rightarrow> k | _ \<Rightarrow> 8)"

definition example_fit :: "kwargs \<Rightarrow> nat \<Rightarrow> vector list \<Rightarrow> py_error + int list" where
  "example_fit kw e X =
     (if n_clusters_of kw \<le> 0 then Inl (ValueError ''n_clusters'')
      else Inr (map (\<lambda>i. int i mod n_clusters_of kw) [0..<length X]))"

text \<open>
  Float operations for the examples, exact on finite values: the difference of two
  finite values, and the square root of the sum of the squares.
\<close>

fun example_subtract :: "float64 \<Rightarrow> float64 \<Rightarrow> float64" where
  "example_subtract (Finite x) (Finite y) = Finite (x - y)"
| "example_subtract _ _ = NaN"

fun finite_value :: "float64 \<Rightarrow> real option" where
  "finite_value (Finite x) = Some x"
| "finite_value _ = None"

definition example_norm :: "float64 list \<Rightarrow> float64" where
  "example_norm xs =
     (if list_all (\<lambda>x. finite_value x \<noteq> None) xs
      then Finite (sqrt (sum_list (map (\<lambda>x. (the (finite_value x))\<^sup>2) xs)))
      else NaN)"

text \<open>Ties in the order of the rows' index labels.\<close>

definition example_tiebreak :: "frame \<Rightarrow> row \<Rightarrow> nat" where
  "example_tiebreak rows r = fst r"

text \<open>
  An endpoint that times out on the word penguin and answers every other request with
  the vector (3, 4).
\<close>

definition flaky_libs :: libs where
  "flaky_libs =
     \<lparr>create = (\<lambda>t k inp engine.
         if inp = ''penguin'' then Inl (ServiceError ''timeout'')
         else Inr (example_response [Finite 3, Finite 4])),
      kmeans_fit = example_fit,
      float_subtract = example_subtract,
      float_norm = example_norm,
      tiebreak = example_tiebreak\<rparr>"

text \<open>An endpoint that never fails: (0, 0) for the word dog and (3, 4) for anything else.\<close>

definition steady_libs :: libs where
  "steady_libs =
     \<lparr>create = (\<lambda>t k inp engine.
         Inr (example_response (if inp = ''dog'' then [Finite 0, Finite 0]
                                else [Finite 3, Finite 4]))),
      kmeans_fit = example_fit,
      float_subtract = example_subtract,
      float_norm = example_norm,
      tiebreak = example_tiebreak\<rparr>"

definition start_state :: state where
  "start_state =
     \<lparr>environ = [''OPENAI_API_KEY'' \<mapsto> ''sk-example''], api_key = None, entropy = 7, trace = []\<rparr>"

definition bare_state :: state where
  "bare_state = \<lparr>environ = Map.empty, api_key = None, entropy = 7, trace = []\<rparr>"

section \<open>Auxiliary facts: exceptions and the trace\<close>

lemma clean_append: "clean (xs @ ys) = (clean xs \<and> clean ys)"
  by (simp add: clean_def)

lemma trace_log: "trace (record_call ev s) = trace s @ [ev]"
  by (simp add: record_call_def)

lemma propagatesI:
  "(\<And>s r s'. m s = (r, s') \<Longrightarrow> \<exists>evs. trace s' = trace s @ evs \<and> run_ok r evs) \<Longrightarrow> propagates m"
  unfolding propagates_def by auto

lemma propagatesD:
  "propagates m \<Longrightarrow> m s = (r, s') \<Longrightarrow> \<exists>evs. trace s' = trace s @ evs \<and> run_ok r evs"
  unfolding propagates_def by (auto split: prod.splits)

lemma propagates_return: "propagates (py_return x)"
  unfolding propagates_def py_return_def run_ok_def clean_def
  by simp

lemma propagates_lib_call: "propagates (lib_call c r)"
proof (cases r)
  case (Inl e)
  show ?thesis
    unfolding propagates_def lib_call_def run_ok_def clean_def Inl by (simp add: trace_log)
next
  case (Inr x)
  show ?thesis
    unfolding propagates_def lib_call_def run_ok_def clean_def Inr by (simp add: trace_log)
qed

lemma propagates_lib_call_state: "propagates (\<lambda>s. lib_call c (g s) s)"
proof (rule propagatesI)
  fix s r s'
  assume "lib_call c (g s) s = (r, s')"
  with propagates_lib_call [of c "g s"]
  show "\<exists>evs. trace s' = trace s @ evs \<and> run_ok r evs"
    by (rule propagatesD)
qed

lemma propagates_environ_get: "propagates (environ_get k)"
proof -
  have "environ_get k =
    (\<lambda>s. lib_call (EnvironGet k) (case environ s k of None \<Rightarrow> Inl (KeyError k) | Some v \<Rightarrow> Inr v) s)"
    by (rule ext) (simp add: environ_get_def)
  then show ?thesis by (simp only: propagates_lib_call_state)
qed

lemma propagates_kmeans_fit_call: "propagates (kmeans_fit_call L kw X)"
proof -
  have "kmeans_fit_call L kw X = (\<lambda>s. lib_call (KMeansFit X) (kmeans_fit L kw (entropy s) X) s)"
    by (rule ext) (simp add: kmeans_fit_call_def)
  then show ?thesis by (simp only: propagates_lib_call_state)
qed

lemma propagates_set_api_key: "propagates (set_api_key k)"
  unfolding propagates_def set_api_key_def run_ok_def clean_def
  by simp

lemma propagates_embedding_create: "propagates (embedding_create L i m)"
proof (rule propagatesI)
  fix s r s'
  assume run: "embedding_create L i m s = (r, s')"
  show "\<exists>evs. trace s' = trace s @ evs \<and> run_ok r evs"
  proof (cases "create L (trace s) (api_key s) i m")
    case (Inl e)
    with run have "r = Inl e" "s' = record_call (Raised (EmbeddingCreate (api_key s) i m) e) s"
      by (simp_all add: embedding_create_def)
    then show ?thesis by (simp add: trace_log run_ok_def clean_def)
  next
    case (Inr resp)
    with run have "r = Inr resp" "s' = record_call (Replied (EmbeddingCreate (api_key s) i m) resp) s"
      by (simp_all add: embedding_create_def)
    then show ?thesis by (simp add: trace_log run_ok_def clean_def)
  qed
qed

lemma propagates_bind:
  assumes m: "propagates m" and f: "\<And>x. propagates (f x)"
  shows "propagates (py_bind m f)"
proof (rule propagatesI)
  fix s r s'
  assume run: "py_bind m f s = (r, s')"
  obtain r1 s1 where m1: "m s = (r1, s1)" by (cases "m s")
  from propagatesD [OF m m1] obtain evs1
    where t1: "trace s1 = trace s @ evs1" and ok1: "run_ok r1 evs1" by blast
  show "\<exists>evs. trace s' = trace s @ evs \<and> run_ok r evs"
  proof (cases r1)
    case (Inl e)
    with run m1 have "r = Inl e" "s' = s1" by (simp_all add: py_bind_def)
    moreover from ok1 Inl have "run_ok (Inl e :: py_error + 'b) evs1" by (simp add: run_ok_def)
    ultimately show ?thesis using t1 by blast
  next
    case (Inr x)
    with run m1 have fx: "f x s1 = (r, s')" by (simp add: py_bind_def)
    from propagatesD [OF f fx] obtain evs2
      where t2: "trace s' = trace s1 @ evs2" and ok2: "run_ok r evs2" by blast
    from ok1 Inr have c1: "clean evs1" by (simp add: run_ok_def)
    have "run_ok r (evs1 @ evs2)"
    proof (cases r)
      case (Inl e)
      from ok2 have ne: "evs2 \<noteq> []" and la: "raised (last evs2) = Some e"
        and cl: "clean (butlast evs2)"
        unfolding Inl run_ok_def by simp_all
      from ne have bl: "butlast (evs1 @ evs2) = evs1 @ butlast evs2"
        by (simp add: butlast_append)
      from ne have ll: "last (evs1 @ evs2) = last evs2" by simp
      from c1 cl have "clean (evs1 @ butlast evs2)" by (simp add: clean_append)
      with ne la show ?thesis
        unfolding Inl run_ok_def bl ll by simp
    next
      case (Inr y)
      from ok2 have "clean evs2" unfolding Inr run_ok_def by simp
      with c1 show ?thesis unfolding Inr run_ok_def by (simp add: clean_append)
    qed
    with t1 t2 show ?thesis by simp
  qed
qed

lemmas propagates_prims =
  propagates_return propagates_lib_call propagates_environ_get propagates_set_api_key
  propagates_embedding_create propagates_kmeans_fit_call

lemma propagates_create_embedding: "propagates (create_embedding L i m)"
  unfolding create_embedding_def getitem_def getindex_def
  by (intro propagates_bind propagates_prims)

lemma propagates_get_embedding: "propagates (get_embedding L i m)"
  unfolding get_embedding_def np_array_def
  by (intro propagates_bind propagates_prims propagates_create_embedding)

lemma propagates_distance: "propagates (distance L u v)"
  unfolding distance_def np_subtract_def linalg_norm_def
  by (intro propagates_bind propagates_prims)

lemma propagates_vectorize_loop: "propagates (vectorize_loop L m ps acc)"
proof (induction ps arbitrary: acc)
  case Nil
  show ?case by (simp add: propagates_return)
next
  case (Cons p ps)
  show ?case
    unfolding vectorize_loop.simps
    by (intro propagates_bind propagates_create_embedding Cons.IH)
qed

lemma propagates_cell_kmeans: "propagates (cell_kmeans L X)"
  unfolding cell_kmeans_def kmeans_new_def
  by (intro propagates_bind propagates_prims)

lemma propagates_cell_table: "propagates (cell_table L ls ts)"
  unfolding cell_table_def dataframe_new_def sort_values_cluster_def reset_index_drop_def
  by (intro propagates_bind propagates_prims)

lemma propagates_notebook: "propagates (notebook L)"
  unfolding notebook_def cell_credentials_def vectorize_def getindex_def
  by (intro propagates_bind propagates_prims propagates_create_embedding
      propagates_get_embedding propagates_distance propagates_vectorize_loop
      propagates_cell_kmeans propagates_cell_table)

section \<open>Auxiliary facts: one request, one reply\<close>

lemma list_index_0_Cons: "list_index (x # xs) 0 = Inr x"
  by (simp add: list_index_def)

lemma list_index_0_Nil: "list_index [] 0 = Inl IndexError"
  by (simp add: list_index_def)

lemmas create_embedding_unfold =
  create_embedding_def py_bind_def embedding_create_def getitem_def getindex_def
  lib_call_def record_call_def

lemma create_embedding_raises:
  "create L (trace s) (api_key s) i m = Inl e \<Longrightarrow>
   create_embedding L i m s =
     (Inl e, s\<lparr>trace := trace s @ [Raised (EmbeddingCreate (api_key s) i m) e]\<rparr>)"
  by (simp add: create_embedding_unfold)

lemma create_embedding_no_data:
  "create L (trace s) (api_key s) i m = Inr resp \<Longrightarrow> resp ''data'' = None \<Longrightarrow>
   create_embedding L i m s =
     (Inl (KeyError ''data''), s\<lparr>trace := trace s @
        [Replied (EmbeddingCreate (api_key s) i m) resp,
         Raised (GetItem ''data'') (KeyError ''data'')]\<rparr>)"
  by (simp add: create_embedding_unfold)

lemma create_embedding_empty_data:
  "create L (trace s) (api_key s) i m = Inr resp \<Longrightarrow> resp ''data'' = Some [] \<Longrightarrow>
   create_embedding L i m s =
     (Inl IndexError, s\<lparr>trace := trace s @
        [Replied (EmbeddingCreate (api_key s) i m) resp, Returned (GetItem ''data''),
         Raised (GetIndex 0) IndexError]\<rparr>)"
  by (simp add: create_embedding_unfold list_index_0_Nil)

lemma create_embedding_no_embedding:
  "create L (trace s) (api_key s) i m = Inr resp \<Longrightarrow> resp ''data'' = Some (d # ds) \<Longrightarrow>
   d ''embedding'' = None \<Longrightarrow>
   create_embedding L i m s =
     (Inl (KeyError ''embedding''), s\<lparr>trace := trace s @
        [Replied (EmbeddingCreate (api_key s) i m) resp, Returned (GetItem ''data''),
         Returned (GetIndex 0), Raised (GetItem ''embedding'') (KeyError ''embedding'')]\<rparr>)"
  by (simp add: create_embedding_unfold list_index_0_Cons)

lemma create_embedding_found:
  "create L (trace s) (api_key s) i m = Inr resp \<Longrightarrow> resp ''data'' = Some (d # ds) \<Longrightarrow>
   d ''embedding'' = Some v \<Longrightarrow>
   create_embedding L i m s =
     (Inr v, s\<lparr>trace := trace s @
        [Replied (EmbeddingCreate (api_key s) i m) resp, Returned (GetItem ''data''),
         Returned (GetIndex 0), Returned (GetItem ''embedding'')]\<rparr>)"
  by (simp add: create_embedding_unfold list_index_0_Cons)

lemma create_embedding_returns:
  assumes c: "create L (trace s) (api_key s) i m = Inr resp"
    and f: "first_embedding resp = Some v"
  shows "create_embedding L i m s =
     (Inr v, s\<lparr>trace := trace s @
        [Replied (EmbeddingCreate (api_key s) i m) resp, Returned (GetItem ''data''),
         Returned (GetIndex 0), Returned (GetItem ''embedding'')]\<rparr>)"
proof -
  from f obtain d ds where "resp ''data'' = Some (d # ds)" and "d ''embedding'' = Some v"
    by (auto simp: first_embedding_def split: option.splits list.splits)
  with c show ?thesis by (rule create_embedding_found)
qed

text \<open>Whatever happens, one request is made, and a vector comes back only from its reply.\<close>

lemma create_embedding_run:
  "\<exists>r evs. create_embedding L i m s = (r, s\<lparr>trace := trace s @ evs\<rparr>) \<and>
     requests evs = [EmbeddingCreate (api_key s) i m] \<and>
     (\<forall>v. r = Inr v \<longrightarrow>
        (\<exists>resp. create L (trace s) (api_key s) i m = Inr resp \<and> first_embedding resp = Some v \<and>
           evs = [Replied (EmbeddingCreate (api_key s) i m) resp, Returned (GetItem ''data''),
                  Returned (GetIndex 0), Returned (GetItem ''embedding'')]))"
proof (cases "create L (trace s) (api_key s) i m")
  case (Inl e)
  from create_embedding_raises [OF Inl] show ?thesis
    by (intro exI conjI, assumption) (simp_all add: requests_def)
next
  case (Inr resp)
  show ?thesis
  proof (cases "resp ''data''")
    case None
    from create_embedding_no_data [OF Inr None] show ?thesis
      by (intro exI conjI, assumption) (simp_all add: requests_def)
  next
    case (Some data)
    show ?thesis
    proof (cases data)
      case Nil
      with Some have "resp ''data'' = Some []" by simp
      from create_embedding_empty_data [OF Inr this] show ?thesis
        by (intro exI conjI, assumption) (simp_all add: requests_def)
    next
      case (Cons d ds)
      with Some have dd: "resp ''data'' = Some (d # ds)" by simp
      show ?thesis
      proof (cases "d ''embedding''")
        case None
        from create_embedding_no_embedding [OF Inr dd None] show ?thesis
          by (intro exI conjI, assumption) (simp_all add: requests_def)
      next
        case (Some v)
        from dd Some have fe: "first_embedding resp = Some v"
          by (simp add: first_embedding_def)
        from create_embedding_found [OF Inr dd Some] show ?thesis
          by (intro exI conjI, assumption) (simp_all add: requests_def Inr fe)
      qed
    qed
  qed
qed

lemma requests_append: "requests (xs @ ys) = requests xs @ requests ys"
  by (simp add: requests_def)

lemma new_events_update: "new_events s (s\<lparr>trace := trace s @ evs\<rparr>) = evs"
  by (simp add: new_events_def)

lemma create_embedding_runE:
  obtains r evs where
    "create_embedding L i m s = (r, s\<lparr>trace := trace s @ evs\<rparr>)"
    "requests evs = [EmbeddingCreate (api_key s) i m]"
    "\<And>v. r = Inr v \<Longrightarrow>
        \<exists>resp. create L (trace s) (api_key s) i m = Inr resp \<and> first_embedding resp = Some v \<and>
           evs = [Replied (EmbeddingCreate (api_key s) i m) resp, Returned (GetItem ''data''),
                  Returned (GetIndex 0), Returned (GetItem ''embedding'')]"
proof -
  from create_embedding_run [of L i m s] obtain r where
    "\<exists>evs. create_embedding L i m s = (r, s\<lparr>trace := trace s @ evs\<rparr>) \<and>
     requests evs = [EmbeddingCreate (api_key s) i m] \<and>
     (\<forall>v. r = Inr v \<longrightarrow>
        (\<exists>resp. create L (trace s) (api_key s) i m = Inr resp \<and> first_embedding resp = Some v \<and>
           evs = [Replied (EmbeddingCreate (api_key s) i m) resp, Returned (GetItem ''data''),
                  Returned (GetIndex 0), Returned (GetItem ''embedding'')]))" ..
  then obtain evs where c:
    "create_embedding L i m s = (r, s\<lparr>trace := trace s @ evs\<rparr>) \<and>
     requests evs = [EmbeddingCreate (api_key s) i m] \<and>
     (\<forall>v. r = Inr v \<longrightarrow>
        (\<exists>resp. create L (trace s) (api_key s) i m = Inr resp \<and> first_embedding resp = Some v \<and>
           evs = [Replied (EmbeddingCreate (api_key s) i m) resp, Returned (GetItem ''data''),
                  Returned (GetIndex 0), Returned (GetItem ''embedding'')]))" ..
  from c have c1: "create_embedding L i m s = (r, s\<lparr>trace := trace s @ evs\<rparr>)"
    by (rule conjunct1)
  from c have c2: "requests evs = [EmbeddingCreate (api_key s) i m]"
    by (rule conjunct2 [THEN conjunct1])
  from c have c3: "\<forall>v. r = Inr v \<longrightarrow>
        (\<exists>resp. create L (trace s) (api_key s) i m = Inr resp \<and> first_embedding resp = Some v \<and>
           evs = [Replied (EmbeddingCreate (api_key s) i m) resp, Returned (GetItem ''data''),
                  Returned (GetIndex 0), Returned (GetItem ''embedding'')])"
    by (rule conjunct2 [THEN conjunct2])
  show thesis
  proof (rule that [OF c1 c2])
    fix v assume "r = Inr v"
    with c3 [rule_format, of v]
    show "\<exists>resp. create L (trace s) (api_key s) i m = Inr resp \<and> first_embedding resp = Some v \<and>
           evs = [Replied (EmbeddingCreate (api_key s) i m) resp, Returned (GetItem ''data''),
                  Returned (GetIndex 0), Returned (GetItem ''embedding'')]" .
  qed
qed

lemma get_embedding_returns:
  assumes c: "create L (trace s) (api_key s) i m = Inr resp"
    and f: "first_embedding resp = Some v"
  shows "get_embedding L i m s =
     (Inr (NDArray v), s\<lparr>trace := trace s @
        [Replied (EmbeddingCreate (api_key s) i m) resp, Returned (GetItem ''data''),
         Returned (GetIndex 0), Returned (GetItem ''embedding''), Returned NpArray]\<rparr>)"
  using create_embedding_returns [OF c f]
  by (simp add: get_embedding_def py_bind_def np_array_def lib_call_def record_call_def
      py_return_def)

lemma get_embedding_runE:
  obtains r evs where
    "get_embedding L i m s = (r, s\<lparr>trace := trace s @ evs\<rparr>)"
    "requests evs = [EmbeddingCreate (api_key s) i m]"
    "\<And>a. r = Inr a \<Longrightarrow>
        \<exists>resp. create L (trace s) (api_key s) i m = Inr resp \<and>
           first_embedding resp = Some (elems a)"
proof (rule create_embedding_runE [of L i m s])
  fix r evs
  assume run: "create_embedding L i m s = (r, s\<lparr>trace := trace s @ evs\<rparr>)"
    and req: "requests evs = [EmbeddingCreate (api_key s) i m]"
    and ret: "\<And>v. r = Inr v \<Longrightarrow>
        \<exists>resp. create L (trace s) (api_key s) i m = Inr resp \<and> first_embedding resp = Some v \<and>
           evs = [Replied (EmbeddingCreate (api_key s) i m) resp, Returned (GetItem ''data''),
                  Returned (GetIndex 0), Returned (GetItem ''embedding'')]"
  show thesis
  proof (cases r)
    case (Inl e)
    with run have g: "get_embedding L i m s = (Inl e, s\<lparr>trace := trace s @ evs\<rparr>)"
      by (simp add: get_embedding_def py_bind_def)
    show thesis by (rule that [OF g req]) simp
  next
    case (Inr v)
    with run have g: "get_embedding L i m s =
        (Inr (NDArray v), s\<lparr>trace := trace s @ (evs @ [Returned NpArray])\<rparr>)"
      by (simp add: get_embedding_def py_bind_def np_array_def lib_call_def record_call_def
          py_return_def)
    have "requests [Returned NpArray] = []" by (simp add: requests_def)
    with req have q: "requests (evs @ [Returned NpArray]) = [EmbeddingCreate (api_key s) i m]"
      by (simp add: requests_append)
    from ret [OF Inr] obtain resp
      where "create L (trace s) (api_key s) i m = Inr resp \<and> first_embedding resp = Some v \<and>
           evs = [Replied (EmbeddingCreate (api_key s) i m) resp, Returned (GetItem ''data''),
                  Returned (GetIndex 0), Returned (GetItem ''embedding'')]" ..
    then have "create L (trace s) (api_key s) i m = Inr resp \<and> first_embedding resp = Some v"
      by simp
    then have ex: "\<exists>resp. create L (trace s) (api_key s) i m = Inr resp \<and>
        first_embedding resp = Some v" by blast
    show thesis
    proof (rule that [OF g q])
      fix a assume "Inr (NDArray v) = (Inr a :: py_error + ndarray)"
      then have "elems a = v" by auto
      with ex show "\<exists>resp. create L (trace s) (api_key s) i m = Inr resp \<and>
           first_embedding resp = Some (elems a)" by simp
    qed
  qed
qed

lemma first_embedding_example: "first_embedding (example_response v) = Some v"
  by (simp add: first_embedding_def example_response_def)

section \<open>Auxiliary facts: the loop over the profiles\<close>

lemma replies_append: "replies (xs @ ys) = replies xs @ replies ys"
  by (induction xs rule: replies.induct) simp_all

lemma replies_found:
  "replies ([Replied (EmbeddingCreate k i m) resp, Returned (GetItem ''data''),
             Returned (GetIndex 0), Returned (GetItem ''embedding'')] @ evs) =
   (i, m, resp) # replies evs"
  by simp

lemma create_embedding_Inr:
  assumes "create_embedding L i m s = (Inr v, s')"
  obtains resp where
    "create L (trace s) (api_key s) i m = Inr resp"
    "first_embedding resp = Some v"
    "s' = s\<lparr>trace := trace s @
        [Replied (EmbeddingCreate (api_key s) i m) resp, Returned (GetItem ''data''),
         Returned (GetIndex 0), Returned (GetItem ''embedding'')]\<rparr>"
proof (rule create_embedding_runE [of L i m s])
  fix r evs
  assume run: "create_embedding L i m s = (r, s\<lparr>trace := trace s @ evs\<rparr>)"
    and ret: "\<And>v. r = Inr v \<Longrightarrow>
        \<exists>resp. create L (trace s) (api_key s) i m = Inr resp \<and> first_embedding resp = Some v \<and>
           evs = [Replied (EmbeddingCreate (api_key s) i m) resp, Returned (GetItem ''data''),
                  Returned (GetIndex 0), Returned (GetItem ''embedding'')]"
  from run assms have r: "r = Inr v" and s': "s' = s\<lparr>trace := trace s @ evs\<rparr>"
    by simp_all
  from ret [OF r] obtain resp where
    c: "create L (trace s) (api_key s) i m = Inr resp" and f: "first_embedding resp = Some v"
    and e: "evs = [Replied (EmbeddingCreate (api_key s) i m) resp, Returned (GetItem ''data''),
                  Returned (GetIndex 0), Returned (GetItem ''embedding'')]"
    by blast
  from s' e show thesis by (intro that [OF c f]) simp
qed

lemma vectorize_loop_step:
  assumes "vectorize_loop L engine (p # ps) acc s = (Inr vs, s')"
  obtains v s1 where
    "create_embedding L p engine s = (Inr v, s1)"
    "vectorize_loop L engine ps (acc @ [v]) s1 = (Inr vs, s')"
proof -
  obtain r s1 where c: "create_embedding L p engine s = (r, s1)"
    by (cases "create_embedding L p engine s")
  show thesis
  proof (cases r)
    case (Inl e)
    with c assms show thesis by (simp add: py_bind_def)
  next
    case (Inr v)
    with c assms have "vectorize_loop L engine ps (acc @ [v]) s1 = (Inr vs, s')"
      by (simp add: py_bind_def)
    with c Inr show thesis by (intro that [of v s1]) simp_all
  qed
qed

lemma vectorize_loop_run:
  "vectorize_loop L engine ps acc s = (Inr vs, s') \<Longrightarrow>
   \<exists>ws evs. vs = acc @ ws \<and> length ws = length ps \<and> trace s' = trace s @ evs \<and>
     map (\<lambda>(i, m, r). (i, m, first_embedding r)) (replies evs) =
       map (\<lambda>(p, w). (p, engine, Some w)) (zip ps ws)"
proof (induction ps arbitrary: acc s)
  case Nil
  then have "vs = acc" "s' = s" by (simp_all add: py_return_def)
  then have "vs = acc @ [] \<and> length ([] :: vector list) = length ([] :: string list) \<and>
     trace s' = trace s @ [] \<and>
     map (\<lambda>(i, m, r). (i, m, first_embedding r)) (replies []) =
       map (\<lambda>(p, w). (p, engine, Some w)) (zip ([] :: string list) ([] :: vector list))"
    by simp
  then show ?case by (intro exI)
next
  case (Cons p ps)
  from Cons.prems obtain v s1 where
    c: "create_embedding L p engine s = (Inr v, s1)"
    and rest: "vectorize_loop L engine ps (acc @ [v]) s1 = (Inr vs, s')"
    by (rule vectorize_loop_step)
  from c obtain resp where
    f: "first_embedding resp = Some v"
    and s1: "s1 = s\<lparr>trace := trace s @
        [Replied (EmbeddingCreate (api_key s) p engine) resp, Returned (GetItem ''data''),
         Returned (GetIndex 0), Returned (GetItem ''embedding'')]\<rparr>"
    by (rule create_embedding_Inr)
  from Cons.IH [OF rest] obtain ws evs where
    vs: "vs = (acc @ [v]) @ ws" and len: "length ws = length ps"
    and tr: "trace s' = trace s1 @ evs"
    and m: "map (\<lambda>(i, m, r). (i, m, first_embedding r)) (replies evs) =
       map (\<lambda>(p, w). (p, engine, Some w)) (zip ps ws)"
    by blast
  let ?evs0 = "[Replied (EmbeddingCreate (api_key s) p engine) resp, Returned (GetItem ''data''),
         Returned (GetIndex 0), Returned (GetItem ''embedding'')]"
  from vs have a: "vs = acc @ (v # ws)" by simp
  from len have b: "length (v # ws) = length (p # ps)" by simp
  from tr s1 have t: "trace s' = trace s @ (?evs0 @ evs)" by simp
  have "replies (?evs0 @ evs) = (p, engine, resp) # replies evs" by (rule replies_found)
  with m f have d: "map (\<lambda>(i, m, r). (i, m, first_embedding r)) (replies (?evs0 @ evs)) =
       map (\<lambda>(p, w). (p, engine, Some w)) (zip (p # ps) (v # ws))"
    by simp
  from a b t d have "vs = acc @ (v # ws) \<and> length (v # ws) = length (p # ps) \<and>
     trace s' = trace s @ (?evs0 @ evs) \<and>
     map (\<lambda>(i, m, r). (i, m, first_embedding r)) (replies (?evs0 @ evs)) =
       map (\<lambda>(p, w). (p, engine, Some w)) (zip (p # ps) (v # ws))"
    by (intro conjI)
  then show ?case by (intro exI)
qed

lemma two_words_run:
  "vectorize flaky_libs model_id [''dog'', ''cat''] start_state =
    (Inr [[Finite 3, Finite 4], [Finite 3, Finite 4]],
     start_state\<lparr>trace :=
        [Replied (EmbeddingCreate None ''dog'' ''text-embedding-ada-002'') (example_response [Finite 3, Finite 4]),
         Returned (GetItem ''data''), Returned (GetIndex 0), Returned (GetItem ''embedding''),
         Replied (EmbeddingCreate None ''cat'' ''text-embedding-ada-002'') (example_response [Finite 3, Finite 4]),
         Returned (GetItem ''data''), Returned (GetIndex 0), Returned (GetItem ''embedding'')]\<rparr>)"
  by (simp add: vectorize_def py_return_def create_embedding_unfold
      flaky_libs_def start_state_def example_response_def model_id_def list_index_def)

section \<open>Auxiliary facts: the clustering cell\<close>

lemma cell_kmeans_raises:
  "kmeans_fit L kmeans_kwargs (entropy s) X = Inl e \<Longrightarrow>
   cell_kmeans L X s =
     (Inl e, s\<lparr>trace := trace s @
        [Returned (KMeansNew kmeans_kwargs), Raised (KMeansFit X) e]\<rparr>)"
  by (simp add: cell_kmeans_def py_bind_def kmeans_new_def kmeans_fit_call_def lib_call_def
      record_call_def)

lemma cell_kmeans_returns:
  "kmeans_fit L kmeans_kwargs (entropy s) X = Inr ls \<Longrightarrow>
   cell_kmeans L X s =
     (Inr ls, s\<lparr>trace := trace s @
        [Returned (KMeansNew kmeans_kwargs), Returned (KMeansFit X)]\<rparr>)"
  by (simp add: cell_kmeans_def py_bind_def kmeans_new_def kmeans_fit_call_def lib_call_def
      record_call_def)

lemma cell_kmeans_result: "fst (cell_kmeans L X s) = kmeans_fit L kmeans_kwargs (entropy s) X"
proof (cases "kmeans_fit L kmeans_kwargs (entropy s) X")
  case (Inl e)
  from cell_kmeans_raises [OF Inl] Inl show ?thesis by simp
next
  case (Inr ls)
  from cell_kmeans_returns [OF Inr] Inr show ?thesis by simp
qed

lemma cell_kmeans_calls:
  "map call_of (new_events s (snd (cell_kmeans L X s))) = [KMeansNew kmeans_kwargs, KMeansFit X]"
proof (cases "kmeans_fit L kmeans_kwargs (entropy s) X")
  case (Inl e)
  from cell_kmeans_raises [OF Inl] show ?thesis by (simp add: new_events_update)
next
  case (Inr ls)
  from cell_kmeans_returns [OF Inr] show ?thesis by (simp add: new_events_update)
qed

section \<open>Auxiliary facts: the table\<close>

lemma cell_table_rows:
  assumes "length labels = length texts"
  shows "fst (cell_table L labels texts s) =
    Inr (zip [0..<length texts]
          (map snd (sort_key
             (\<lambda>r. (row_cluster r, tiebreak L (zip [0..<length texts] (zip labels texts)) r))
             (zip [0..<length texts] (zip labels texts)))))"
  using assms
  by (simp add: cell_table_def py_bind_def dataframe_new_def sort_values_cluster_def
      reset_index_drop_def lib_call_def)

lemma cell_table_mismatch:
  assumes "length labels \<noteq> length texts"
  shows "fst (cell_table L labels texts s) = Inl (ValueError ''All arrays must be of the same length'')"
  using assms
  by (simp add: cell_table_def py_bind_def dataframe_new_def lib_call_def)

lemma map_snd_zip_upt: "length ys = n \<Longrightarrow> map snd (zip [0..<n] ys) = ys"
  by (simp add: map_snd_zip)

lemma map_fst_zip_upt: "length ys = n \<Longrightarrow> map fst (zip [0..<n] ys) = [0..<n]"
  by (simp add: map_fst_zip)

text \<open>Whatever order the ties come in, the first component of the key is in order.\<close>

lemma sorted_first_key:
  fixes f :: "'a \<Rightarrow> int" and g :: "'a \<Rightarrow> nat"
  shows "sorted (map f (sort_key (\<lambda>r. (f r, g r)) xs))"
proof -
  have "sorted (map (\<lambda>r. (f r, g r)) (sort_key (\<lambda>r. (f r, g r)) xs))"
    by (rule sorted_sort_key)
  then have "sorted_wrt (\<lambda>x y. (f x, g x) \<le> (f y, g y)) (sort_key (\<lambda>r. (f r, g r)) xs)"
    by (simp only: sorted_map)
  then have "sorted_wrt (\<lambda>x y. f x \<le> f y) (sort_key (\<lambda>r. (f r, g r)) xs)"
    by (rule sorted_wrt_mono_rel [rotated]) auto
  then show ?thesis by (simp only: sorted_map)
qed

lemma displayed_table:
  "fst (cell_table flaky_libs [1, 0, 1, 0, 0]
      [''Green Fuel Oasis'', ''Coastal Retreat Rest Stop'', ''TechHub Express'',
       ''Highland Haven'', ''Countryside Classic''] s) =
   Inr [(0, 0, ''Coastal Retreat Rest Stop''), (1, 0, ''Highland Haven''),
        (2, 0, ''Countryside Classic''), (3, 1, ''Green Fuel Oasis''),
        (4, 1, ''TechHub Express'')]"
  by (simp add: cell_table_def py_bind_def dataframe_new_def sort_values_cluster_def
      reset_index_drop_def lib_call_def row_cluster_def upt_rec flaky_libs_def
      example_tiebreak_def)

section \<open>Auxiliary facts: two complete runs\<close>

lemma flaky_run:
  "notebook flaky_libs start_state =
    (Inl (ServiceError ''timeout''),
     start_state\<lparr>api_key := Some ''sk-example'',
       trace :=
        [Returned (EnvironGet ''OPENAI_API_KEY''),
         Replied (EmbeddingCreate (Some ''sk-example'') ''Hello, world!'' ''text-embedding-ada-002'')
           (example_response [Finite 3, Finite 4]),
         Returned (GetItem ''data''), Returned (GetIndex 0), Returned (GetItem ''embedding''),
         Replied (EmbeddingCreate (Some ''sk-example'') ''dog'' ''text-embedding-ada-002'')
           (example_response [Finite 3, Finite 4]),
         Returned (GetItem ''data''), Returned (GetIndex 0), Returned (GetItem ''embedding''),
         Returned NpArray,
         Replied (EmbeddingCreate (Some ''sk-example'') ''cat'' ''text-embedding-ada-002'')
           (example_response [Finite 3, Finite 4]),
         Returned (GetItem ''data''), Returned (GetIndex 0), Returned (GetItem ''embedding''),
         Returned NpArray,
         Raised (EmbeddingCreate (Some ''sk-example'') ''penguin'' ''text-embedding-ada-002'')
           (ServiceError ''timeout'')]\<rparr>)"
  by (simp add: notebook_def cell_credentials_def set_api_key_def environ_get_def
      get_embedding_def np_array_def py_return_def create_embedding_unfold
      flaky_libs_def start_state_def example_response_def
      text_string_def model_id_def default_model_id_def list_index_def)

text \<open>
  The whole notebook against the endpoint that never fails: what the cells display.
\<close>

lemma steady_run:
  "fst (notebook steady_libs start_state) =
     Inr \<lparr>embedding_head = [Finite 3, Finite 4], embedding_len = 2,
          distance_dog_to_cat = Finite 5, distance_dog_to_penguin = Finite 5,
          vector_heads = [[Finite 3, Finite 4], [Finite 3, Finite 4], [Finite 3, Finite 4],
                          [Finite 3, Finite 4], [Finite 3, Finite 4]],
          df = [(0, 0, profiles ! 0), (1, 0, profiles ! 2), (2, 0, profiles ! 4),
                (3, 1, profiles ! 1), (4, 1, profiles ! 3)],
          shown_profiles = [profiles ! 0, profiles ! 2]\<rparr>"
proof -
  have sq: "sqrt 25 = 5" by (rule real_sqrt_unique) simp_all
  show ?thesis
    by (simp add: notebook_def cell_credentials_def set_api_key_def environ_get_def
      get_embedding_def np_array_def py_return_def create_embedding_unfold
      steady_libs_def start_state_def example_response_def
      text_string_def model_id_def default_model_id_def list_index_def
      distance_def np_subtract_def linalg_norm_def broadcast_subtract_def example_norm_def
      vectorize_def profiles_def cell_kmeans_def kmeans_new_def kmeans_fit_call_def
      kmeans_kwargs_def example_fit_def n_clusters_of_def example_tiebreak_def
      cell_table_def dataframe_new_def sort_values_cluster_def reset_index_drop_def
      row_cluster_def upt_rec sq)
qed

section \<open>Claims: failures\<close>

text \<open>
  C2. Nothing in the notebook catches or retries a failure. A run raises exactly when one
  of its outside calls (environment lookup, request to the endpoint, subscript of the
  response, library call) raised; the exception is the one that call raised, that call
  is the last one the run made, and every call before it returned.
\<close>

theorem notebook_raises_iff_call_raises:
  assumes run: "notebook L s = (r, s')"
  shows "trace s' = trace s @ new_events s s' \<and>
         ((\<exists>e. r = Inl e) \<longleftrightarrow> (\<exists>ev \<in> set (new_events s s'). raised ev \<noteq> None)) \<and>
         (\<forall>e. r = Inl e \<longrightarrow>
            new_events s s' \<noteq> [] \<and> raised (last (new_events s s')) = Some e \<and>
            (\<forall>ev \<in> set (butlast (new_events s s')). raised ev = None))"
proof -
  from propagatesD [OF propagates_notebook run] obtain evs
    where t: "trace s' = trace s @ evs" and ok: "run_ok r evs" by blast
  from t have ne: "new_events s s' = evs" by (simp add: new_events_def)
  show ?thesis
  proof (cases r)
    case (Inl e)
    from ok have a: "evs \<noteq> []" and b: "raised (last evs) = Some e" and c: "clean (butlast evs)"
      unfolding Inl run_ok_def by simp_all
    from a have "last evs \<in> set evs" by simp
    with b have "\<exists>ev \<in> set evs. raised ev \<noteq> None" by force
    moreover from c have "\<forall>ev \<in> set (butlast evs). raised ev = None"
      by (simp add: clean_def list_all_iff)
    ultimately show ?thesis using a b t unfolding ne Inl by simp
  next
    case (Inr x)
    from ok have "\<forall>ev \<in> set evs. raised ev = None"
      unfolding Inr run_ok_def by (simp add: clean_def list_all_iff)
    then show ?thesis using t unfolding ne Inr by simp
  qed
qed

theorem notebook_raises_iff_call_raises_witness:
  "fst (notebook flaky_libs start_state) = Inl (ServiceError ''timeout'') \<and>
   raised (last (new_events start_state (snd (notebook flaky_libs start_state)))) =
     Some (ServiceError ''timeout'') \<and>
   length (new_events start_state (snd (notebook flaky_libs start_state))) = 16 \<and>
   clean (butlast (new_events start_state (snd (notebook flaky_libs start_state)))) \<and>
   isl (fst (notebook steady_libs start_state)) = False \<and>
   clean (new_events start_state (snd (notebook steady_libs start_state)))"
proof -
  have run: "notebook flaky_libs start_state =
      (fst (notebook flaky_libs start_state), snd (notebook flaky_libs start_state))"
    by simp
  have r: "fst (notebook flaky_libs start_state) = Inl (ServiceError ''timeout'')"
    by (simp add: flaky_run)
  have n: "length (new_events start_state (snd (notebook flaky_libs start_state))) = 16"
    unfolding flaky_run by (simp add: new_events_def start_state_def)
  from notebook_raises_iff_call_raises [OF run] r n
  have flaky: "fst (notebook flaky_libs start_state) = Inl (ServiceError ''timeout'') \<and>
   raised (last (new_events start_state (snd (notebook flaky_libs start_state)))) =
     Some (ServiceError ''timeout'') \<and>
   length (new_events start_state (snd (notebook flaky_libs start_state))) = 16 \<and>
   clean (butlast (new_events start_state (snd (notebook flaky_libs start_state))))"
    by (simp add: clean_def list_all_iff)
  have run': "notebook steady_libs start_state =
      (fst (notebook steady_libs start_state), snd (notebook steady_libs start_state))"
    by simp
  have ok: "isl (fst (notebook steady_libs start_state)) = False"
    by (simp only: steady_run sum.disc)
  then have "\<not> (\<exists>e. fst (notebook steady_libs start_state) = Inl e)" by auto
  with notebook_raises_iff_call_raises [OF run']
  have "\<not> (\<exists>ev \<in> set (new_events start_state (snd (notebook steady_libs start_state))).
          raised ev \<noteq> None)"
    by blast
  then have "clean (new_events start_state (snd (notebook steady_libs start_state)))"
    by (simp add: clean_def list_all_iff)
  with flaky ok show ?thesis by simp
qed

text \<open>
  C10. When \<^verbatim>\<open>OPENAI_API_KEY\<close> is unset the run ends with KeyError at the credential
  lookup: that failed lookup is the only call made (no request, no distance, no
  clustering), and the credential, the environment and the ambient state are as they
  were.
\<close>

theorem unset_key_fails_first:
  assumes "environ s ''OPENAI_API_KEY'' = None"
  shows "fst (notebook L s) = Inl (KeyError ''OPENAI_API_KEY'') \<and>
         new_events s (snd (notebook L s)) =
           [Raised (EnvironGet ''OPENAI_API_KEY'') (KeyError ''OPENAI_API_KEY'')] \<and>
         api_key (snd (notebook L s)) = api_key s \<and>
         environ (snd (notebook L s)) = environ s \<and>
         entropy (snd (notebook L s)) = entropy s"
proof -
  have "notebook L s =
    (Inl (KeyError ''OPENAI_API_KEY''),
     record_call (Raised (EnvironGet ''OPENAI_API_KEY'') (KeyError ''OPENAI_API_KEY'')) s)"
    using assms
    by (simp add: notebook_def cell_credentials_def py_bind_def environ_get_def lib_call_def)
  then show ?thesis by (simp add: new_events_def record_call_def)
qed

theorem unset_key_fails_first_witness:
  "environ bare_state ''OPENAI_API_KEY'' = None \<and>
   fst (notebook flaky_libs bare_state) = Inl (KeyError ''OPENAI_API_KEY'') \<and>
   trace (snd (notebook flaky_libs bare_state)) =
     [Raised (EnvironGet ''OPENAI_API_KEY'') (KeyError ''OPENAI_API_KEY'')] \<and>
   api_key (snd (notebook flaky_libs bare_state)) = None"
proof -
  have h: "environ bare_state ''OPENAI_API_KEY'' = None" by (simp add: bare_state_def)
  have t: "trace bare_state = []" by (simp add: bare_state_def)
  have k: "api_key bare_state = None" by (simp add: bare_state_def)
  from unset_key_fails_first [OF h, of flaky_libs] h t k show ?thesis
    by (simp add: new_events_def)
qed

section \<open>Claims: the helper and the loop\<close>

text \<open>
  C1. For every input string, \<open>get_embedding\<close> sends the string to the endpoint exactly
  once (whether the call returns or raises), and what it returns is the vector of the
  endpoint's reply, element for element and in order, as a numpy array: when the reply
  carries the vector \<open>v\<close> the result is the array of \<open>v\<close>, and a result can only come
  from such a reply.
\<close>

theorem get_embedding_forwards_once:
  "requests (new_events s (snd (get_embedding L string model s))) =
     [EmbeddingCreate (api_key s) string model] \<and>
   (\<forall>resp v. create L (trace s) (api_key s) string model = Inr resp \<longrightarrow>
      first_embedding resp = Some v \<longrightarrow>
      fst (get_embedding L string model s) = Inr (NDArray v)) \<and>
   (\<forall>a. fst (get_embedding L string model s) = Inr a \<longrightarrow>
      (\<exists>resp. create L (trace s) (api_key s) string model = Inr resp \<and>
         first_embedding resp = Some (elems a)))"
proof (rule get_embedding_runE [of L string model s])
  fix r evs
  assume run: "get_embedding L string model s = (r, s\<lparr>trace := trace s @ evs\<rparr>)"
    and req: "requests evs = [EmbeddingCreate (api_key s) string model]"
    and ret: "\<And>a. r = Inr a \<Longrightarrow>
        \<exists>resp. create L (trace s) (api_key s) string model = Inr resp \<and>
           first_embedding resp = Some (elems a)"
  from run req have one: "requests (new_events s (snd (get_embedding L string model s))) =
     [EmbeddingCreate (api_key s) string model]"
    by (simp add: new_events_update)
  have fwd: "\<forall>resp v. create L (trace s) (api_key s) string model = Inr resp \<longrightarrow>
      first_embedding resp = Some v \<longrightarrow>
      fst (get_embedding L string model s) = Inr (NDArray v)"
  proof (intro allI impI)
    fix resp v
    assume "create L (trace s) (api_key s) string model = Inr resp"
      and "first_embedding resp = Some v"
    then have "get_embedding L string model s =
     (Inr (NDArray v), s\<lparr>trace := trace s @
        [Replied (EmbeddingCreate (api_key s) string model) resp, Returned (GetItem ''data''),
         Returned (GetIndex 0), Returned (GetItem ''embedding''), Returned NpArray]\<rparr>)"
      by (rule get_embedding_returns)
    then show "fst (get_embedding L string model s) = Inr (NDArray v)" by simp
  qed
  have bwd: "\<forall>a. fst (get_embedding L string model s) = Inr a \<longrightarrow>
      (\<exists>resp. create L (trace s) (api_key s) string model = Inr resp \<and>
         first_embedding resp = Some (elems a))"
  proof (intro allI impI)
    fix a assume "fst (get_embedding L string model s) = Inr a"
    with run have "r = Inr a" by simp
    then show "\<exists>resp. create L (trace s) (api_key s) string model = Inr resp \<and>
         first_embedding resp = Some (elems a)" by (rule ret)
  qed
  from one fwd bwd show ?thesis by (intro conjI)
qed

theorem get_embedding_forwards_once_witness:
  "create flaky_libs (trace start_state) (api_key start_state) ''dog'' default_model_id =
     Inr (example_response [Finite 3, Finite 4]) \<and>
   first_embedding (example_response [Finite 3, Finite 4]) = Some [Finite 3, Finite 4] \<and>
   fst (get_embedding flaky_libs ''dog'' default_model_id start_state) = Inr (NDArray [Finite 3, Finite 4]) \<and>
   requests (new_events start_state
       (snd (get_embedding flaky_libs ''dog'' default_model_id start_state))) =
     [EmbeddingCreate None ''dog'' ''text-embedding-ada-002'']"
proof -
  have c: "create flaky_libs (trace start_state) (api_key start_state) ''dog'' default_model_id =
     Inr (example_response [Finite 3, Finite 4])"
    by (simp add: flaky_libs_def)
  have k: "api_key start_state = None" by (simp add: start_state_def)
  note t = get_embedding_forwards_once [of start_state flaky_libs "''dog''" default_model_id]
  from t have one: "requests (new_events start_state
       (snd (get_embedding flaky_libs ''dog'' default_model_id start_state))) =
     [EmbeddingCreate (api_key start_state) ''dog'' default_model_id]"
    by (rule conjunct1)
  from t have "\<forall>resp v.
      create flaky_libs (trace start_state) (api_key start_state) ''dog'' default_model_id =
        Inr resp \<longrightarrow>
      first_embedding resp = Some v \<longrightarrow>
      fst (get_embedding flaky_libs ''dog'' default_model_id start_state) = Inr (NDArray v)"
    by (rule conjunct2 [THEN conjunct1])
  from this [rule_format, OF c first_embedding_example [of "[Finite 3, Finite 4]"]]
  have r: "fst (get_embedding flaky_libs ''dog'' default_model_id start_state) = Inr (NDArray [Finite 3, Finite 4])" .
  from one have one': "requests (new_events start_state
       (snd (get_embedding flaky_libs ''dog'' default_model_id start_state))) =
     [EmbeddingCreate None ''dog'' ''text-embedding-ada-002'']"
    by (simp only: k default_model_id_def)
  from c first_embedding_example [of "[Finite 3, Finite 4]"] r one' show ?thesis by (intro conjI)
qed

text \<open>
  C9. When the loop over the profiles completes, \<open>profiles_vectorized\<close> has as many
  elements as there are profiles; the loop made one answered request per profile, in the
  profiles' order, and the element at index \<open>i\<close> is the embedding carried by the reply
  to the request for profile \<open>i\<close>.
\<close>

theorem vectorize_preserves_order_and_length:
  assumes run: "vectorize L engine ps s = (Inr vs, s')"
  shows "length vs = length ps \<and>
         length (replies (new_events s s')) = length ps \<and>
         (\<forall>i < length ps. \<exists>resp.
            replies (new_events s s') ! i = (ps ! i, engine, resp) \<and>
            first_embedding resp = Some (vs ! i))"
proof -
  from run have "vectorize_loop L engine ps [] s = (Inr vs, s')" by (simp add: vectorize_def)
  from vectorize_loop_run [OF this] obtain ws evs where
    vs: "vs = [] @ ws" and len: "length ws = length ps" and tr: "trace s' = trace s @ evs"
    and m: "map (\<lambda>(i, m, r). (i, m, first_embedding r)) (replies evs) =
       map (\<lambda>(p, w). (p, engine, Some w)) (zip ps ws)"
    by blast
  from tr have ne: "new_events s s' = evs" by (simp add: new_events_def)
  from vs len have l1: "length vs = length ps" by simp
  from m have "length (map (\<lambda>(i, m, r). (i, m, first_embedding r)) (replies evs)) =
       length (map (\<lambda>(p, w). (p, engine, Some w)) (zip ps ws))"
    by (rule arg_cong)
  with len have l2: "length (replies evs) = length ps" by simp
  have l3: "\<forall>i < length ps. \<exists>resp.
            replies evs ! i = (ps ! i, engine, resp) \<and> first_embedding resp = Some (vs ! i)"
  proof (intro allI impI)
    fix i assume i: "i < length ps"
    obtain a b resp where r: "replies evs ! i = (a, b, resp)" by (cases "replies evs ! i")
    from m have "map (\<lambda>(i, m, r). (i, m, first_embedding r)) (replies evs) ! i =
       map (\<lambda>(p, w). (p, engine, Some w)) (zip ps ws) ! i"
      by (rule arg_cong)
    with i l2 len r vs have "a = ps ! i" "b = engine" "first_embedding resp = Some (vs ! i)"
      by simp_all
    with r show "\<exists>resp. replies evs ! i = (ps ! i, engine, resp) \<and>
        first_embedding resp = Some (vs ! i)"
      by simp
  qed
  from l1 l2 l3 show ?thesis unfolding ne by (intro conjI)
qed

theorem vectorize_preserves_order_and_length_witness:
  "fst (vectorize flaky_libs model_id [''dog'', ''cat''] start_state) = Inr [[Finite 3, Finite 4], [Finite 3, Finite 4]] \<and>
   length (replies (new_events start_state
      (snd (vectorize flaky_libs model_id [''dog'', ''cat''] start_state)))) = 2 \<and>
   (\<exists>resp. replies (new_events start_state
        (snd (vectorize flaky_libs model_id [''dog'', ''cat''] start_state))) ! 1 =
      (''cat'', model_id, resp) \<and> first_embedding resp = Some [Finite 3, Finite 4])"
proof -
  let ?s' = "snd (vectorize flaky_libs model_id [''dog'', ''cat''] start_state)"
  have r: "fst (vectorize flaky_libs model_id [''dog'', ''cat''] start_state) = Inr [[Finite 3, Finite 4], [Finite 3, Finite 4]]"
    by (simp add: two_words_run)
  then have run: "vectorize flaky_libs model_id [''dog'', ''cat''] start_state =
      (Inr [[Finite 3, Finite 4], [Finite 3, Finite 4]], ?s')"
    by (simp add: prod_eq_iff)
  note t = vectorize_preserves_order_and_length [OF run]
  from t have l: "length (replies (new_events start_state ?s')) = length [''dog'', ''cat'']"
    by (rule conjunct2 [THEN conjunct1])
  from t have "\<forall>i < length [''dog'', ''cat'']. \<exists>resp.
            replies (new_events start_state ?s') ! i = ([''dog'', ''cat''] ! i, model_id, resp) \<and>
            first_embedding resp = Some ([[Finite 3, Finite 4], [Finite 3, Finite 4]] ! i)"
    by (rule conjunct2 [THEN conjunct2])
  from this [rule_format, of 1] have "\<exists>resp.
            replies (new_events start_state ?s') ! 1 = ([''dog'', ''cat''] ! 1, model_id, resp) \<and>
            first_embedding resp = Some ([[Finite 3, Finite 4], [Finite 3, Finite 4]] ! 1)"
    by simp
  then have "\<exists>resp.
            replies (new_events start_state ?s') ! 1 = (''cat'', model_id, resp) \<and>
            first_embedding resp = Some [Finite 3, Finite 4]"
    by simp
  with r l show ?thesis by simp
qed

section \<open>Claims: clustering\<close>

text \<open>
  C5. The clustering cell is one construction of the estimator with exactly the keyword
  arguments \<^verbatim>\<open>n_clusters=2\<close>, \<^verbatim>\<open>n_init='auto'\<close> and \<^verbatim>\<open>random_state=40\<close>, followed by one
  call of the library's fit on the vectors as they are; the cell's result is the
  library's result, and nothing else is called.
\<close>

theorem clustering_is_one_direct_call:
  "map call_of (new_events s (snd (cell_kmeans L X s))) =
     [KMeansNew [(''n_clusters'', IntArg 2), (''n_init'', StrArg ''auto''),
                 (''random_state'', IntArg 40)],
      KMeansFit X] \<and>
   fst (cell_kmeans L X s) =
     kmeans_fit L [(''n_clusters'', IntArg 2), (''n_init'', StrArg ''auto''),
                   (''random_state'', IntArg 40)] (entropy s) X"
  using cell_kmeans_calls [of s L X] cell_kmeans_result [of L X s]
  by (simp only: kmeans_kwargs_def)

section \<open>Claims: the table\<close>

text \<open>
  C7. The displayed table holds each label beside the profile text it belongs to: its
  rows are exactly the pairs (label of profile \<open>i\<close>, text of profile \<open>i\<close>), every pair
  once and unchanged, in nondecreasing order of the label, renumbered from 0.
\<close>

theorem table_rows_are_sorted_pairs:
  assumes len: "length labels = length texts"
  shows "\<exists>df. fst (cell_table L labels texts s) = Inr df \<and>
     mset (map snd df) = mset (zip labels texts) \<and>
     sorted (map row_cluster df) \<and>
     map fst df = [0..<length texts]"
proof -
  let ?n = "length texts"
  let ?rows = "zip [0..<?n] (zip labels texts)"
  let ?sorted = "sort_key (\<lambda>r. (row_cluster r, tiebreak L ?rows r)) ?rows"
  let ?df = "zip [0..<?n] (map snd ?sorted)"
  from len have lr: "length ?rows = ?n" by simp
  then have ls: "length (map snd ?sorted) = ?n" by simp
  have a: "fst (cell_table L labels texts s) = Inr ?df" by (rule cell_table_rows [OF len])
  from ls have snd_df: "map snd ?df = map snd ?sorted" by (rule map_snd_zip_upt)
  from len have "map snd ?rows = zip labels texts" by (intro map_snd_zip_upt) simp
  then have "mset (map snd ?rows) = mset (zip labels texts)" by (rule arg_cong)
  moreover have "mset (map snd ?sorted) = image_mset snd (mset ?sorted)" by (rule mset_map)
  moreover have "mset ?sorted = mset ?rows" by (rule mset_sort)
  moreover have "mset (map snd ?rows) = image_mset snd (mset ?rows)" by (rule mset_map)
  ultimately have "mset (map snd ?sorted) = mset (zip labels texts)" by simp
  with snd_df have b: "mset (map snd ?df) = mset (zip labels texts)" by simp
  have "map row_cluster ?df = map (fst \<circ> snd) ?df" by (simp add: row_cluster_def comp_def)
  also have "\<dots> = map fst (map snd ?df)" by simp
  also have "\<dots> = map fst (map snd ?sorted)" by (simp only: snd_df)
  also have "\<dots> = map row_cluster ?sorted" by (simp add: row_cluster_def comp_def)
  finally have "map row_cluster ?df = map row_cluster ?sorted" .
  then have c: "sorted (map row_cluster ?df)" by (simp only: sorted_first_key)
  from ls have d: "map fst ?df = [0..<?n]" by (rule map_fst_zip_upt)
  from a b c d show ?thesis by (intro exI conjI)
qed

theorem table_rows_are_sorted_pairs_witness:
  "length [1, 0, 1, 0, 0 :: int] =
     length [''Green Fuel Oasis'', ''Coastal Retreat Rest Stop'', ''TechHub Express'',
       ''Highland Haven'', ''Countryside Classic''] \<and>
   (\<exists>df. fst (cell_table flaky_libs [1, 0, 1, 0, 0]
      [''Green Fuel Oasis'', ''Coastal Retreat Rest Stop'', ''TechHub Express'',
       ''Highland Haven'', ''Countryside Classic''] start_state) = Inr df \<and>
     df = [(0, 0, ''Coastal Retreat Rest Stop''), (1, 0, ''Highland Haven''),
        (2, 0, ''Countryside Classic''), (3, 1, ''Green Fuel Oasis''),
        (4, 1, ''TechHub Express'')] \<and>
     sorted (map row_cluster df) \<and> map fst df = [0, 1, 2, 3, 4])"
proof -
  let ?ls = "[1, 0, 1, 0, 0 :: int]"
  let ?ts = "[''Green Fuel Oasis'', ''Coastal Retreat Rest Stop'', ''TechHub Express'',
       ''Highland Haven'', ''Countryside Classic'']"
  have len: "length ?ls = length ?ts" by simp
  from table_rows_are_sorted_pairs [OF len, of flaky_libs start_state] obtain df where
    r: "fst (cell_table flaky_libs ?ls ?ts start_state) = Inr df"
    and s: "sorted (map row_cluster df)" and i: "map fst df = [0..<length ?ts]"
    by blast
  from r have e: "df = [(0, 0, ''Coastal Retreat Rest Stop''), (1, 0, ''Highland Haven''),
        (2, 0, ''Countryside Classic''), (3, 1, ''Green Fuel Oasis''),
        (4, 1, ''TechHub Express'')]"
    by (simp only: displayed_table sum.inject)
  from i have i': "map fst df = [0, 1, 2, 3, 4]" by (simp add: upt_rec)
  from len r e s i' show ?thesis by (intro conjI exI)
qed

end
